theory Spec2Isabelle
  imports Complex_Main
begin

section \<open>JavaScript values\<close>

text \<open>
  The service of \<^verbatim>\<open>src/unnamed/part_000\<close> prices craftable items. Its recipes and auction
  listings are JSON documents of an upstream provider, and the code inspects them with
  \<^verbatim>\<open>typeof\<close>, truthiness and \<^verbatim>\<open>??\<close>, so they are modelled as JSON values.
  Numbers are exact rationals (doubles without rounding error); \<open>JNaN\<close> is the one
  run-time number that \<^verbatim>\<open>JSON.parse\<close> never produces and \<^verbatim>\<open>parseInt\<close> does.
  An object holds its own properties in the order of \<^verbatim>\<open>Object.entries\<close>, keys distinct.
  Strings are ASCII.
\<close>

datatype jsval =
    JNull
  | JBool bool
  | JNum rat
  | JNaN
  | JStr string
  | JArr "jsval list"
  | JObj "(string \<times> jsval) list"

text \<open>\<^verbatim>\<open>if (v)\<close>, \<^verbatim>\<open>!v\<close>, \<^verbatim>\<open>v || d\<close>: the falsy values are null, false, 0, NaN and "".\<close>

fun truthy :: "jsval \<Rightarrow> bool" where
  "truthy JNull = False"
| "truthy (JBool b) = b"
| "truthy (JNum r) = (r \<noteq> 0)"
| "truthy JNaN = False"
| "truthy (JStr s) = (s \<noteq> [])"
| "truthy (JArr xs) = True"
| "truthy (JObj kvs) = True"

text \<open>\<^verbatim>\<open>v.k\<close> for the keys the code reads; \<open>None\<close> is \<^verbatim>\<open>undefined\<close>. Arrays and
  primitives have no property of those names.\<close>

fun get_prop :: "jsval \<Rightarrow> string \<Rightarrow> jsval option" where
  "get_prop (JObj kvs) k = map_of kvs k"
| "get_prop v k = None"

text \<open>\<^verbatim>\<open>x ?? d\<close> on a property read: undefined and null give way to the default.\<close>

fun nullish :: "jsval option \<Rightarrow> bool" where
  "nullish None = True"
| "nullish (Some JNull) = True"
| "nullish (Some v) = False"

definition js_round :: "rat \<Rightarrow> int" where
  \<comment> \<open>\<^verbatim>\<open>Math.round\<close>: to the nearest integer, halves towards plus infinity\<close>
  "js_round r = \<lfloor>r + 1 / 2\<rfloor>"

definition toFixed2 :: "rat \<Rightarrow> rat" where
  \<comment> \<open>\<^verbatim>\<open>Number(x.toFixed(2))\<close>: two decimals, halves away from zero\<close>
  "toFixed2 r = (if r < 0 then - rat_of_int \<lfloor>- r * 100 + 1 / 2\<rfloor> / 100
                 else rat_of_int \<lfloor>r * 100 + 1 / 2\<rfloor> / 100)"

subsection \<open>Strings\<close>

definition upper_char :: "char \<Rightarrow> char" where
  "upper_char c = (let n = (of_char c :: nat) in
                   if 97 \<le> n \<and> n \<le> 122 then char_of (n - 32) else c)"

definition toUpperCase :: "string \<Rightarrow> string" where
  "toUpperCase s = map upper_char s"

definition is_ws :: "char \<Rightarrow> bool" where
  \<comment> \<open>tab, line feed, vertical tab, form feed, carriage return, space\<close>
  "is_ws c = ((of_char c :: nat) \<in> {9, 10, 11, 12, 13, 32})"

definition is_digit :: "char \<Rightarrow> bool" where
  "is_digit c = (48 \<le> (of_char c :: nat) \<and> (of_char c :: nat) \<le> 57)"

definition trim :: "string \<Rightarrow> string" where
  "trim s = rev (dropWhile is_ws (rev (dropWhile is_ws s)))"

text \<open>\<^verbatim>\<open>s.split(":")\<close>: always at least one part.\<close>

fun split_colon :: "string \<Rightarrow> string list" where
  "split_colon [] = [[]]"
| "split_colon (c # cs) =
     (if c = CHR '':'' then [] # split_colon cs
      else (case split_colon cs of
              [] \<Rightarrow> [[c]]
            | p # ps \<Rightarrow> (c # p) # ps))"

definition digits_val :: "string \<Rightarrow> int" where
  "digits_val ds = foldl (\<lambda>acc c. 10 * acc + (int (of_char c) - 48)) 0 ds"

text \<open>\<^verbatim>\<open>parseInt(s, 10)\<close> on a string: leading white space, an optional sign, then the
  longest run of decimal digits; \<open>None\<close> is NaN.\<close>

definition parseInt10 :: "string \<Rightarrow> int option" where
  "parseInt10 s =
     (let s1 = dropWhile is_ws s;
          neg = (case s1 of [] \<Rightarrow> False | c # _ \<Rightarrow> c = CHR ''-'');
          s2 = (case s1 of [] \<Rightarrow> []
                | c # r \<Rightarrow> if c = CHR ''-'' \<or> c = CHR ''+'' then r else s1);
          ds = takeWhile is_digit s2
      in if ds = [] then None
         else Some (if neg then - digits_val ds else digits_val ds))"

text \<open>\<^verbatim>\<open>parseInt(v, 10)\<close> on any value: the value is turned into a string first. A number
  prints in plain decimal notation, so its integer part is read; an array prints its
  elements joined by commas, so its first element decides; booleans, null and objects
  print as words.\<close>

fun parseInt :: "jsval \<Rightarrow> int option" where
  "parseInt (JStr s) = parseInt10 s"
| "parseInt (JNum r) = Some (if 0 \<le> r then \<lfloor>r\<rfloor> else \<lceil>r\<rceil>)"
| "parseInt (JArr (x # xs)) = parseInt x"
| "parseInt v = None"

subsection \<open>The recipe parser\<close>

record ingredient =
  ing_item :: jsval
  ing_count :: jsval

record parsed_recipe =
  ingredients :: "ingredient list"
  outputCount :: int

fun show_nat :: "nat \<Rightarrow> string" where
  "show_nat n = (if n < 10 then [char_of (48 + n)]
                 else show_nat (n div 10) @ [char_of (48 + n mod 10)])"

declare show_nat.simps [simp del]

text \<open>\<^verbatim>\<open>Object.entries(v)\<close>: an object's own entries; an array or a string is entered by
  index; other primitives have none.\<close>

fun entries :: "jsval \<Rightarrow> (string \<times> jsval) list" where
  "entries (JObj kvs) = kvs"
| "entries (JArr xs) = zip (map show_nat [0..<length xs]) xs"
| "entries (JStr s) = zip (map show_nat [0..<length s]) (map (\<lambda>c. JStr [c]) s)"
| "entries v = []"

text \<open>\<^verbatim>\<open>Object.values(v)[0]\<close>\<close>

fun first_value :: "jsval \<Rightarrow> jsval option" where
  "first_value (JObj ((k, x) # kvs)) = Some x"
| "first_value (JArr (x # xs)) = Some x"
| "first_value v = None"

definition slot_key :: "string \<Rightarrow> bool" where
  \<comment> \<open>\<^verbatim>\<open>/^[A-C][1-3]$/.test(k)\<close>\<close>
  "slot_key k = (case k of
                   [r, c] \<Rightarrow> r \<in> {CHR ''A'', CHR ''B'', CHR ''C''}
                            \<and> c \<in> {CHR ''1'', CHR ''2'', CHR ''3''}
                 | _ \<Rightarrow> False)"

text \<open>\<^verbatim>\<open>parts[1] ? parseInt(parts[1], 10) : 1\<close>, the result still possibly NaN.\<close>

definition part_count :: "string list \<Rightarrow> int option" where
  "part_count parts =
     (case parts of
        p0 # p1 # _ \<Rightarrow> if p1 \<noteq> [] then parseInt10 p1 else Some 1
      | _ \<Rightarrow> Some 1)"

definition num_or_nan :: "int option \<Rightarrow> jsval" where
  "num_or_nan c = (case c of None \<Rightarrow> JNaN | Some n \<Rightarrow> JNum (rat_of_int n))"

text \<open>The three shapes of a slot value in \<^verbatim>\<open>parseRecipeSlots\<close>: a string
  \<^verbatim>\<open>"ITEM_ID:count"\<close>; an object with a truthy \<^verbatim>\<open>item\<close>; any other object, read through its
  first value when that is a string.\<close>

definition string_slot :: "string \<Rightarrow> ingredient list" where
  "string_slot s =
     (let parts = split_colon s;
          ident = trim (hd parts);
          cnt = part_count parts
      in if ident = [] then []
         else [\<lparr>ing_item = JStr ident,
                ing_count = (case cnt of None \<Rightarrow> JNum 1 | Some n \<Rightarrow> JNum (rat_of_int n))\<rparr>])"

definition first_value_slot :: "jsval \<Rightarrow> ingredient list" where
  "first_value_slot v =
     (case first_value v of
        Some (JStr first) \<Rightarrow>
          (let parts = split_colon first
           in [\<lparr>ing_item = JStr (hd parts), ing_count = num_or_nan (part_count parts)\<rparr>])
      | _ \<Rightarrow> [])"

definition object_slot :: "jsval \<Rightarrow> ingredient list" where
  "object_slot v =
     (if (case get_prop v ''item'' of None \<Rightarrow> False | Some it \<Rightarrow> truthy it)
      then [\<lparr>ing_item = the (get_prop v ''item''),
             ing_count = (if nullish (get_prop v ''count'') then JNum 1
                          else the (get_prop v ''count''))\<rparr>]
      else first_value_slot v)"

text \<open>One turn of the loop over \<^verbatim>\<open>Object.entries(recipe)\<close>: the ingredients that the
  entry \<open>(k, v)\<close> pushes (none or one).\<close>

definition parse_slot :: "string \<times> jsval \<Rightarrow> ingredient list" where
  "parse_slot kv =
     (let k = fst kv; v = snd kv in
      if \<not> slot_key k then []
      else if \<not> truthy v then []
      else (case v of
              JStr s \<Rightarrow> string_slot s
            | JArr xs \<Rightarrow> object_slot v
            | JObj kvs \<Rightarrow> object_slot v
            | _ \<Rightarrow> []))"

definition parseRecipeSlots :: "jsval \<Rightarrow> parsed_recipe" where
  "parseRecipeSlots recipe =
     \<lparr>ingredients = concat (map parse_slot (entries recipe)),
      outputCount =
        (if nullish (get_prop recipe ''count'') then 1
         else (case parseInt (the (get_prop recipe ''count'')) of
                 None \<Rightarrow> 1
               | Some n \<Rightarrow> if 0 < n then n else 1))\<rparr>"

section \<open>Stores, caches and providers\<close>

text \<open>
  The three SQLite tables are maps from the item key to a row, upserted by key. The
  \<^verbatim>\<open>json\<close> column of a recipe row is held parsed: \<open>None\<close> stands for a text that
  \<^verbatim>\<open>JSON.parse\<close> rejects. The module variables \<^verbatim>\<open>bazaarPrices\<close> and \<^verbatim>\<open>lbinCache\<close> are maps
  as well. Two more fields record what the code does to the outside world: \<open>calls\<close> logs
  every request sent to a provider, \<open>tick\<close> counts the reads of the clock.
\<close>

record price_row =
  pr_price :: int
  pr_source :: string
  pr_layers :: int
  pr_updatedAt :: int

record recipe_row =
  rc_json :: "jsval option"
  rc_updatedAt :: int

record margin_row =
  mr_costPerUnit :: int
  mr_sellPrice :: int
  mr_profit :: int
  mr_marginPercent :: rat
  mr_updatedAt :: int

record bazaar_quote =
  bz_buy :: "rat option"
  bz_sell :: "rat option"
  bz_updatedAt :: int

record lbin_entry =
  lb_price :: rat
  lb_updatedAt :: int

datatype provider_call = RecipeRequest string | AuctionRequest string

record state =
  db_recipes :: "string \<rightharpoonup> recipe_row"
  db_prices :: "string \<rightharpoonup> price_row"
  db_margins :: "string \<rightharpoonup> margin_row"
  bazaarPrices :: "string \<rightharpoonup> bazaar_quote"
  lbinCache :: "string \<rightharpoonup> lbin_entry"
  calls :: "provider_call list"
  tick :: nat

text \<open>
  The world outside the process: \<open>clock k\<close> is what the \<open>k\<close>-th call of \<^verbatim>\<open>Date.now()\<close>
  returns; \<open>recipe_api\<close> and \<open>auction_api\<close> are the parsed bodies the two providers answer
  with, \<open>None\<close> for every failure the code folds into \<^verbatim>\<open>null\<close> (network error, status not
  ok, empty body, invalid JSON). The table \<^verbatim>\<open>easyItems\<close> is read by \<^verbatim>\<open>getItemPrice\<close> and
  declared nowhere in the sources, so it is a parameter.
\<close>

record env =
  clock :: "nat \<Rightarrow> int"
  recipe_api :: "string \<Rightarrow> jsval option"
  auction_api :: "string \<Rightarrow> jsval option"
  easyItems :: "string \<rightharpoonup> rat"

definition PRICE_CACHE_TTL :: int where
  "PRICE_CACHE_TTL = 1000 * 60 * 1"

definition nowTs :: "env \<Rightarrow> state \<Rightarrow> int \<times> state" where
  "nowTs e st = (clock e (tick st), st\<lparr>tick := Suc (tick st)\<rparr>)"

text \<open>The upsert \<^verbatim>\<open>INSERT INTO prices ... ON CONFLICT(item) DO UPDATE\<close>.\<close>

definition upsert_price :: "string \<Rightarrow> int \<Rightarrow> string \<Rightarrow> int \<Rightarrow> int \<Rightarrow> state \<Rightarrow> state" where
  "upsert_price name p src lay now st =
     st\<lparr>db_prices := (db_prices st)(name \<mapsto>
          \<lparr>pr_price = p, pr_source = src, pr_layers = lay, pr_updatedAt = now\<rparr>)\<rparr>"

subsection \<open>Recipes\<close>

definition fetchAndStoreRecipe :: "env \<Rightarrow> string \<Rightarrow> state \<Rightarrow> jsval \<times> state" where
  "fetchAndStoreRecipe e itemName st =
     (let st1 = st\<lparr>calls := calls st @ [RecipeRequest itemName]\<rparr> in
      case recipe_api e itemName of
        None \<Rightarrow> (JNull, st1)
      | Some js \<Rightarrow>
          (let (now, st2) = nowTs e st1
           in (js, st2\<lparr>db_recipes := (db_recipes st2)(itemName \<mapsto>
                        \<lparr>rc_json = Some js, rc_updatedAt = now\<rparr>)\<rparr>)))"

definition getRecipeCached :: "env \<Rightarrow> string \<Rightarrow> state \<Rightarrow> jsval \<times> state" where
  "getRecipeCached e itemName st =
     (case db_recipes st itemName of
        Some row \<Rightarrow> (case rc_json row of Some js \<Rightarrow> (js, st) | None \<Rightarrow> (JNull, st))
      | None \<Rightarrow> fetchAndStoreRecipe e itemName st)"

subsection \<open>The lowest active auction\<close>

datatype error = TypeError | NotANumber

text \<open>\<^verbatim>\<open>a.startingBid ?? a.price ?? a.bin ?? a.bid ?? null\<close>; reading a property of
  \<^verbatim>\<open>null\<close> throws.\<close>

definition listing_price :: "jsval \<Rightarrow> error + jsval" where
  "listing_price a =
     (if a = JNull then Inl TypeError
      else Inr (if \<not> nullish (get_prop a ''startingBid'') then the (get_prop a ''startingBid'')
                else if \<not> nullish (get_prop a ''price'') then the (get_prop a ''price'')
                else if \<not> nullish (get_prop a ''bin'') then the (get_prop a ''bin'')
                else if \<not> nullish (get_prop a ''bid'') then the (get_prop a ''bid'')
                else JNull))"

text \<open>The loop \<^verbatim>\<open>for (const a of arr)\<close> of \<^verbatim>\<open>fetchLBIN\<close>; the running minimum \<open>None\<close> is
  \<^verbatim>\<open>Infinity\<close>.\<close>

fun lowest :: "jsval list \<Rightarrow> rat option \<Rightarrow> error + rat option" where
  "lowest [] m = Inr m"
| "lowest (a # as) m =
     (case listing_price a of
        Inl err \<Rightarrow> Inl err
      | Inr (JNum p) \<Rightarrow>
          lowest as (case m of None \<Rightarrow> Some p
                     | Some q \<Rightarrow> if p < q then Some p else Some q)
      | Inr v \<Rightarrow> lowest as m)"

text \<open>\<^verbatim>\<open>fetchLBIN\<close>: \<open>None\<close> is its \<^verbatim>\<open>null\<close>. Everything thrown inside is caught and turned
  into \<^verbatim>\<open>null\<close>. On success it fills the in-memory cache and upserts the price row itself.\<close>

definition fetchLBIN :: "env \<Rightarrow> string \<Rightarrow> state \<Rightarrow> rat option \<times> state" where
  "fetchLBIN e itemName st =
     (let st1 = st\<lparr>calls := calls st @ [AuctionRequest itemName]\<rparr> in
      case auction_api e itemName of
        Some (JArr (a # as)) \<Rightarrow>
          (case lowest (a # as) None of
             Inr (Some m) \<Rightarrow>
               (let (now, st2) = nowTs e st1;
                    st3 = st2\<lparr>lbinCache := (lbinCache st2)(itemName \<mapsto>
                                \<lparr>lb_price = m, lb_updatedAt = now\<rparr>)\<rparr>
                in (Some m, upsert_price itemName (js_round m) ''lbin'' 0 now st3))
           | _ \<Rightarrow> (None, st1))
      | _ \<Rightarrow> (None, st1))"

section \<open>Price resolution\<close>

record priced =
  p_price :: int
  p_source :: string
  p_layers :: int

type_synonym 'a outcome = "((error + 'a) \<times> string set \<times> state) option"

text \<open>
  \<^verbatim>\<open>getItemPrice\<close> calls itself for every ingredient, and nothing in the code bounds the
  depth when the provider keeps answering with new item names. The model therefore takes
  the number of nested calls it may still make; \<open>None\<close> means it ran out, and no verdict of
  the program is read off it. A run that ends gives \<open>Inr None\<close> for \<^verbatim>\<open>null\<close>,
  \<open>Inr (Some r)\<close> for a price and \<open>Inl err\<close> for an exception, each with the visited set
  (a \<^verbatim>\<open>Set\<close> shared by reference) and the state it leaves behind.

  In the loops over the ingredients, \<open>resolve\<close> stands for the recursive call
  \<^verbatim>\<open>getItemPrice(ingName, visited)\<close>.
\<close>

text \<open>\<^verbatim>\<open>ing.count || 1\<close>\<close>

definition ingCount :: "ingredient \<Rightarrow> jsval" where
  "ingCount ing = (if truthy (ing_count ing) then ing_count ing else JNum 1)"

text \<open>The factor in \<^verbatim>\<open>sub.price * ingCount\<close>. A number or a boolean multiplies as it is.
  A string, an array or an object would first be converted by the language; that
  conversion is not modelled, and such a count ends the run with \<open>NotANumber\<close>.\<close>

fun factor :: "jsval \<Rightarrow> rat option" where
  "factor (JNum r) = Some r"
| "factor (JBool b) = Some (if b then 1 else 0)"
| "factor v = None"

fun craftLoop :: "(string \<Rightarrow> string set \<Rightarrow> state \<Rightarrow> priced option outcome) \<Rightarrow>
    ingredient list \<Rightarrow> rat \<Rightarrow> int \<Rightarrow> string set \<Rightarrow> state \<Rightarrow> (rat \<times> int) option outcome" where
  "craftLoop resolve [] tot maxLayer visited st = Some (Inr (Some (tot, maxLayer)), visited, st)"
| "craftLoop resolve (ing # ings) tot maxLayer visited st =
     (case ing_item ing of
        JStr s \<Rightarrow>
          (case resolve (toUpperCase s) visited st of
             None \<Rightarrow> None
           | Some (Inl err, visited1, st1) \<Rightarrow> Some (Inl err, visited1, st1)
           | Some (Inr None, visited1, st1) \<Rightarrow> Some (Inr None, visited1, st1)
           | Some (Inr (Some sub), visited1, st1) \<Rightarrow>
               (case factor (ingCount ing) of
                  None \<Rightarrow> Some (Inl NotANumber, visited1, st1)
                | Some c \<Rightarrow>
                    craftLoop resolve ings (tot + rat_of_int (p_price sub) * c)
                      (if p_layers sub + 1 > maxLayer then p_layers sub + 1 else maxLayer)
                      visited1 st1))
      | _ \<Rightarrow> Some (Inl TypeError, visited, st))"

text \<open>The last step of \<^verbatim>\<open>getItemPrice\<close>, the table of always-cheap materials.\<close>

definition easyStep :: "env \<Rightarrow> string \<Rightarrow> int \<Rightarrow> string set \<Rightarrow> state \<Rightarrow> priced option outcome" where
  "easyStep e name now visited st =
     (case easyItems e name of
        Some v \<Rightarrow>
          Some (Inr (Some \<lparr>p_price = js_round v, p_source = ''easy'', p_layers = 0\<rparr>), visited,
                upsert_price name (js_round v) ''easy'' 0 now st)
      | None \<Rightarrow> Some (Inr None, visited, st))"

definition or1 :: "int \<Rightarrow> int" where
  \<comment> \<open>\<^verbatim>\<open>outputCount || 1\<close>\<close>
  "or1 n = (if n = 0 then 1 else n)"

text \<open>Lines 204 to 245: the recipe, the loop over its ingredients, the craft price, and
  the table when the recipe gives no price.\<close>

definition craftStep :: "(string \<Rightarrow> string set \<Rightarrow> state \<Rightarrow> priced option outcome) \<Rightarrow>
    env \<Rightarrow> string \<Rightarrow> int \<Rightarrow> string set \<Rightarrow> state \<Rightarrow> priced option outcome" where
  "craftStep resolve e name now visited st =
     (let (recipe, st1) = getRecipeCached e name st in
      if truthy recipe \<and> ingredients (parseRecipeSlots recipe) \<noteq> []
      then (case craftLoop resolve (ingredients (parseRecipeSlots recipe)) 0 0 visited st1 of
              None \<Rightarrow> None
            | Some (Inl err, visited2, st2) \<Rightarrow> Some (Inl err, visited2, st2)
            | Some (Inr None, visited2, st2) \<Rightarrow> easyStep e name now visited2 st2
            | Some (Inr (Some (tot, maxLayer)), visited2, st2) \<Rightarrow>
                (let perUnit = js_round (tot / rat_of_int (or1 (outputCount (parseRecipeSlots recipe))))
                 in Some (Inr (Some \<lparr>p_price = perUnit, p_source = ''craft'', p_layers = maxLayer\<rparr>),
                          visited2, upsert_price name perUnit ''craft'' maxLayer now st2)))
      else easyStep e name now visited st1)"

text \<open>The row of \<^verbatim>\<open>prices\<close> that is still within its time to live.\<close>

definition fresh_row :: "state \<Rightarrow> string \<Rightarrow> int \<Rightarrow> price_row option" where
  "fresh_row st name now =
     (case db_prices st name of
        Some pr \<Rightarrow> if now - pr_updatedAt pr < PRICE_CACHE_TTL then Some pr else None
      | None \<Rightarrow> None)"

definition bazaar_buy :: "state \<Rightarrow> string \<Rightarrow> rat option" where
  \<comment> \<open>\<^verbatim>\<open>bazaarPrices[name] && bazaarPrices[name].buy != null\<close>\<close>
  "bazaar_buy st name = (case bazaarPrices st name of Some q \<Rightarrow> bz_buy q | None \<Rightarrow> None)"

definition fresh_lbin :: "state \<Rightarrow> string \<Rightarrow> int \<Rightarrow> lbin_entry option" where
  \<comment> \<open>\<^verbatim>\<open>cachedLbin && now - cachedLbin.updatedAt < PRICE_CACHE_TTL\<close>\<close>
  "fresh_lbin st name now =
     (case lbinCache st name of
        Some c \<Rightarrow> if now - lb_updatedAt c < PRICE_CACHE_TTL then Some c else None
      | None \<Rightarrow> None)"

text \<open>The body of \<^verbatim>\<open>getItemPrice\<close> after \<^verbatim>\<open>visited.add(name)\<close>, lines 170 to 245.\<close>

definition sources :: "(string \<Rightarrow> string set \<Rightarrow> state \<Rightarrow> priced option outcome) \<Rightarrow>
    env \<Rightarrow> string \<Rightarrow> string set \<Rightarrow> state \<Rightarrow> priced option outcome" where
  "sources resolve e name visited st0 =
     (let (now, st) = nowTs e st0 in
      case fresh_row st name now of
        Some pr \<Rightarrow>
          Some (Inr (Some \<lparr>p_price = pr_price pr, p_source = pr_source pr,
                           p_layers = pr_layers pr\<rparr>), visited, st)
      | None \<Rightarrow>
     (case bazaar_buy st name of
        Some b \<Rightarrow>
          Some (Inr (Some \<lparr>p_price = js_round b, p_source = ''bazaar'', p_layers = 0\<rparr>), visited,
                upsert_price name (js_round b) ''bazaar'' 0 now st)
      | None \<Rightarrow>
     (case fresh_lbin st name now of
        Some c \<Rightarrow>
          Some (Inr (Some \<lparr>p_price = js_round (lb_price c), p_source = ''lbin'', p_layers = 0\<rparr>),
                visited, upsert_price name (js_round (lb_price c)) ''lbin'' 0 now st)
      | None \<Rightarrow>
     (case fetchLBIN e name st of
        (Some m, st1) \<Rightarrow>
          Some (Inr (Some \<lparr>p_price = js_round m, p_source = ''lbin'', p_layers = 0\<rparr>), visited, st1)
      | (None, st1) \<Rightarrow> craftStep resolve e name now visited st1))))"

primrec getItemPrice :: "nat \<Rightarrow> env \<Rightarrow> string \<Rightarrow> string set \<Rightarrow> state \<Rightarrow> priced option outcome" where
  "getItemPrice 0 e itemName visited st = None"
| "getItemPrice (Suc n) e itemName visited st =
     (if itemName = [] then Some (Inr None, visited, st)
      else if toUpperCase itemName \<in> visited then Some (Inr None, visited, st)
      else sources (getItemPrice n e) e (toUpperCase itemName)
             (insert (toUpperCase itemName) visited) st)"

section \<open>Margins\<close>

record breakdown_entry =
  bd_item :: string
  bd_count :: jsval
  bd_unitPrice :: int
  bd_source :: string
  bd_layers :: int

record margin_record =
  m_item :: string
  m_costPerUnit :: int
  m_sellPrice :: int
  m_profit :: int
  m_marginPercent :: rat
  m_breakdown :: "breakdown_entry list"
  m_craftLayers :: int

text \<open>The loop of \<^verbatim>\<open>computeMarginForItem\<close>; every ingredient is resolved with
  \<^verbatim>\<open>new Set()\<close>, and the set the call leaves behind is dropped.\<close>

fun marginLoop :: "(string \<Rightarrow> string set \<Rightarrow> state \<Rightarrow> priced option outcome) \<Rightarrow>
    ingredient list \<Rightarrow> rat \<Rightarrow> breakdown_entry list \<Rightarrow> int \<Rightarrow> state \<Rightarrow>
    ((error + (rat \<times> breakdown_entry list \<times> int) option) \<times> state) option" where
  "marginLoop resolve [] tot breakdown maxLayers st =
     Some (Inr (Some (tot, breakdown, maxLayers)), st)"
| "marginLoop resolve (ing # ings) tot breakdown maxLayers st =
     (case ing_item ing of
        JStr s \<Rightarrow>
          (case resolve (toUpperCase s) {} st of
             None \<Rightarrow> None
           | Some (Inl err, visited1, st1) \<Rightarrow> Some (Inl err, st1)
           | Some (Inr None, visited1, st1) \<Rightarrow> Some (Inr None, st1)
           | Some (Inr (Some sub), visited1, st1) \<Rightarrow>
               (case factor (ingCount ing) of
                  None \<Rightarrow> Some (Inl NotANumber, st1)
                | Some c \<Rightarrow>
                    marginLoop resolve ings (tot + rat_of_int (p_price sub) * c)
                      (breakdown @ [\<lparr>bd_item = toUpperCase s, bd_count = ingCount ing,
                                      bd_unitPrice = js_round (rat_of_int (p_price sub)),
                                      bd_source = p_source sub, bd_layers = p_layers sub\<rparr>])
                      (if p_layers sub > maxLayers then p_layers sub else maxLayers)
                      st1))
      | _ \<Rightarrow> Some (Inl TypeError, st))"

text \<open>Lines 270 to 273 and the record returned: the cost of one output, the rounded sell
  price, the profit and the margin in percent.\<close>

definition marginOf :: "string \<Rightarrow> rat \<Rightarrow> rat \<Rightarrow> int \<Rightarrow> breakdown_entry list \<Rightarrow> int \<Rightarrow>
    margin_record" where
  "marginOf itemName sellv tot outCount breakdown maxLayers =
     (let perOutput = js_round (tot / rat_of_int (or1 outCount));
          sell = js_round sellv;
          profit = js_round (rat_of_int sell - rat_of_int perOutput);
          marginPercent =
            (if perOutput > 0
             then toFixed2 (rat_of_int profit / rat_of_int perOutput * 100)
             else 0)
      in \<lparr>m_item = itemName, m_costPerUnit = perOutput, m_sellPrice = sell,
          m_profit = profit, m_marginPercent = marginPercent,
          m_breakdown = breakdown, m_craftLayers = maxLayers\<rparr>)"

text \<open>The upsert \<^verbatim>\<open>INSERT INTO craft_margins ... ON CONFLICT(item) DO UPDATE\<close>.\<close>

definition upsert_margin :: "margin_record \<Rightarrow> int \<Rightarrow> state \<Rightarrow> state" where
  "upsert_margin mr now st =
     st\<lparr>db_margins := (db_margins st)(m_item mr \<mapsto>
          \<lparr>mr_costPerUnit = m_costPerUnit mr, mr_sellPrice = m_sellPrice mr,
           mr_profit = m_profit mr, mr_marginPercent = m_marginPercent mr,
           mr_updatedAt = now\<rparr>)\<rparr>"

definition bazaar_sell :: "state \<Rightarrow> string \<Rightarrow> rat option" where
  \<comment> \<open>\<^verbatim>\<open>bz && bz.sell != null\<close>\<close>
  "bazaar_sell st itemName = (case bazaarPrices st itemName of Some bz \<Rightarrow> bz_sell bz | None \<Rightarrow> None)"

definition computeMarginForItem :: "nat \<Rightarrow> env \<Rightarrow> string \<Rightarrow> state \<Rightarrow>
    ((error + margin_record option) \<times> state) option" where
  "computeMarginForItem n e itemName st =
     (case bazaar_sell st itemName of
        None \<Rightarrow> Some (Inr None, st)
      | Some sellv \<Rightarrow>
          (let (recipe, st1) = getRecipeCached e itemName st in
           if \<not> truthy recipe then Some (Inr None, st1)
           else if ingredients (parseRecipeSlots recipe) = [] then Some (Inr None, st1)
           else (case marginLoop (getItemPrice n e) (ingredients (parseRecipeSlots recipe))
                        0 [] 0 st1 of
                   None \<Rightarrow> None
                 | Some (Inl err, st2) \<Rightarrow> Some (Inl err, st2)
                 | Some (Inr None, st2) \<Rightarrow> Some (Inr None, st2)
                 | Some (Inr (Some (tot, breakdown, maxLayers)), st2) \<Rightarrow>
                     (let mr = marginOf itemName sellv tot (outputCount (parseRecipeSlots recipe))
                                 breakdown maxLayers;
                          (now, st3) = nowTs e st2
                      in Some (Inr (Some mr), upsert_margin mr now st3)))))"

section \<open>The per-item query\<close>

text \<open>
  The handler of \<^verbatim>\<open>GET /item-price/:item\<close> reads the three tables by the upper-cased
  parameter. A missing row is whatever the database driver returns for it, here \<open>None\<close>;
  the recipe field is set to \<^verbatim>\<open>null\<close> by the handler itself. \<^verbatim>\<open>JSON.parse\<close> of a stored
  text that does not parse throws, and the handler answers 500.
\<close>

record margin_view =
  mv_costPerUnit :: int
  mv_sellPrice :: int
  mv_profit :: int
  mv_marginPercent :: rat

record item_detail =
  d_item :: string
  d_recipe :: jsval
  d_priceRow :: "price_row option"
  d_margin :: "margin_view option"

datatype response = Json item_detail | Status500

definition itemPrice :: "state \<Rightarrow> string \<Rightarrow> response" where
  "itemPrice st param =
     (let item = toUpperCase param;
          priceRow = db_prices st item;
          margin = map_option (\<lambda>r. \<lparr>mv_costPerUnit = mr_costPerUnit r, mv_sellPrice = mr_sellPrice r,
                                     mv_profit = mr_profit r,
                                     mv_marginPercent = mr_marginPercent r\<rparr>) (db_margins st item)
      in case db_recipes st item of
           None \<Rightarrow> Json \<lparr>d_item = item, d_recipe = JNull, d_priceRow = priceRow, d_margin = margin\<rparr>
         | Some rec \<Rightarrow>
             (case rc_json rec of
                None \<Rightarrow> Status500
              | Some js \<Rightarrow>
                  Json \<lparr>d_item = item, d_recipe = js, d_priceRow = priceRow, d_margin = margin\<rparr>))"

section \<open>Notions used in the statements\<close>

text \<open>What a run returned, apart from the state it left.\<close>

definition result_of :: "('r \<times> 's) option \<Rightarrow> 'r option" where
  "result_of out = map_option fst out"

text \<open>The state a run of \<^verbatim>\<open>getItemPrice\<close> left; only read where the run has ended.\<close>

definition state_after :: "'a outcome \<Rightarrow> state" where
  "state_after out = snd (snd (the out))"

text \<open>An invariant \<open>I\<close> of the visited set and the state is kept by the recursive call,
  and by the steps the resolution is made of.\<close>

definition resolve_keeps :: "(string set \<Rightarrow> state \<Rightarrow> bool) \<Rightarrow>
    (string \<Rightarrow> string set \<Rightarrow> state \<Rightarrow> priced option outcome) \<Rightarrow> bool" where
  "resolve_keeps I resolve =
     (\<forall>name v s q v1 s1. I v s \<longrightarrow> resolve name v s = Some (q, v1, s1) \<longrightarrow> I v1 s1)"

definition steps_keep :: "env \<Rightarrow> (string set \<Rightarrow> state \<Rightarrow> bool) \<Rightarrow> bool" where
  "steps_keep e I =
     ((\<forall>v s name p src lay now. I v s \<longrightarrow> I v (upsert_price name p src lay now s))
      \<and> (\<forall>v s name. I v s \<longrightarrow> I v (snd (getRecipeCached e name s)))
      \<and> (\<forall>v s. I v s \<longrightarrow> I v (snd (nowTs e s)))
      \<and> (\<forall>v s name. I v s \<longrightarrow> I v (snd (fetchLBIN e name s)))
      \<and> (\<forall>v s name. I v s \<longrightarrow> I (insert name v) s))"

subsection \<open>The sources of a price, in the words of the specification\<close>

text \<open>
  A source takes the visited set and the state and either gives a price, or fails
  (\<open>Inr None\<close>), or throws. \<open>first_success\<close> tries a list of sources strictly in order:
  the first price wins, a failing source hands the state it left to the next one, and when
  the list is exhausted the answer is absent.
\<close>

type_synonym source = "string set \<Rightarrow> state \<Rightarrow> priced option outcome"








subsection \<open>The ingredients of a craft price\<close>

text \<open>
  The prices that the loop of \<^verbatim>\<open>getItemPrice\<close> gets for the ingredients, in order, each
  with the number it is multiplied by (\<^verbatim>\<open>ing.count || 1\<close>): the same calls in the same
  states as \<open>craftLoop\<close>, the results kept in a list instead of summed up. \<open>Inr None\<close>
  says that an ingredient has no price.
\<close>

fun subResults :: "(string \<Rightarrow> source) \<Rightarrow> ingredient list \<Rightarrow> string set \<Rightarrow> state \<Rightarrow>
    (priced \<times> rat) list option outcome" where
  "subResults resolve [] visited st = Some (Inr (Some []), visited, st)"
| "subResults resolve (ing # ings) visited st =
     (case ing_item ing of
        JStr s \<Rightarrow>
          (case resolve (toUpperCase s) visited st of
             None \<Rightarrow> None
           | Some (Inl err, visited1, st1) \<Rightarrow> Some (Inl err, visited1, st1)
           | Some (Inr None, visited1, st1) \<Rightarrow> Some (Inr None, visited1, st1)
           | Some (Inr (Some sub), visited1, st1) \<Rightarrow>
               (case factor (ingCount ing) of
                  None \<Rightarrow> Some (Inl NotANumber, visited1, st1)
                | Some c \<Rightarrow>
                    (case subResults resolve ings visited1 st1 of
                       None \<Rightarrow> None
                     | Some (Inl err, visited2, st2) \<Rightarrow> Some (Inl err, visited2, st2)
                     | Some (Inr None, visited2, st2) \<Rightarrow> Some (Inr None, visited2, st2)
                     | Some (Inr (Some subs), visited2, st2) \<Rightarrow>
                         Some (Inr (Some ((sub, c) # subs)), visited2, st2))))
      | _ \<Rightarrow> Some (Inl TypeError, visited, st))"

definition cost_sum :: "(priced \<times> rat) list \<Rightarrow> rat" where
  \<comment> \<open>the sum of unit price times count\<close>
  "cost_sum subs = sum_list (map (\<lambda>(sub, c). rat_of_int (p_price sub) * c) subs)"

definition layers_of :: "(priced \<times> rat) list \<Rightarrow> int set" where
  "layers_of subs = set (map (\<lambda>(sub, c). p_layers sub) subs)"

text \<open>The rows of the price table as the program writes them: no negative layer, and a
  layer above 0 only on a craft price.\<close>

definition row_ok :: "price_row \<Rightarrow> bool" where
  "row_ok pr = (0 \<le> pr_layers pr \<and> (pr_source pr \<noteq> ''craft'' \<longrightarrow> pr_layers pr = 0))"

definition prices_ok :: "state \<Rightarrow> bool" where
  "prices_ok st = (\<forall>name pr. db_prices st name = Some pr \<longrightarrow> row_ok pr)"

definition res_ok :: "priced \<Rightarrow> bool" where
  "res_ok r = (0 \<le> p_layers r \<and> (p_source r \<noteq> ''craft'' \<longrightarrow> p_layers r = 0))"

subsection \<open>Auction listings\<close>

text \<open>The prices of the listings that count: the first of the four fields that is not
  null, when it is a number.\<close>

definition numeric_prices :: "jsval list \<Rightarrow> rat list" where
  "numeric_prices as =
     concat (map (\<lambda>a. case listing_price a of Inr (JNum p) \<Rightarrow> [p] | _ \<Rightarrow> []) as)"

subsection \<open>The recipe graph\<close>



subsection \<open>Margins\<close>



text \<open>The state a run of \<^verbatim>\<open>computeMarginForItem\<close> left; only read where the run has
  ended.\<close>

definition margin_state :: "((error + margin_record option) \<times> state) option \<Rightarrow> state" where
  "margin_state out = snd (the out)"

subsection \<open>Rows and results with sound layers\<close>

text \<open>The recursive call keeps the price table sound and gives sound results.\<close>

definition resolve_ok :: "(string \<Rightarrow> source) \<Rightarrow> bool" where
  "resolve_ok resolve =
     (\<forall>name v s q v1 s1. prices_ok s \<longrightarrow> resolve name v s = Some (q, v1, s1) \<longrightarrow>
        prices_ok s1 \<and> (\<forall>r. q = Inr (Some r) \<longrightarrow> res_ok r))"

subsection \<open>A cycle of two\<close>




section \<open>Example worlds\<close>

text \<open>A pickaxe made of two cobblestones and a stick, both quoted on the bazaar, and a
  torch made of a stick and of coal, which nothing prices. The recipes come from the
  provider, nothing is stored yet.\<close>

definition pick_recipe :: jsval where
  "pick_recipe = JObj [(''A1'', JStr ''COBBLESTONE:2''), (''B1'', JStr ''STICK:1''),
                       (''count'', JStr ''1'')]"

definition torch_recipe :: jsval where
  "torch_recipe = JObj [(''A1'', JStr ''STICK:1''), (''A2'', JStr ''COAL:1'')]"

definition pick_state :: state where
  "pick_state =
     \<lparr>db_recipes = Map.empty, db_prices = Map.empty, db_margins = Map.empty,
      bazaarPrices =
        [''COBBLESTONE'' \<mapsto> \<lparr>bz_buy = Some 10, bz_sell = Some 8, bz_updatedAt = 0\<rparr>,
         ''STICK'' \<mapsto> \<lparr>bz_buy = Some 5, bz_sell = Some 4, bz_updatedAt = 0\<rparr>,
         ''PICK'' \<mapsto> \<lparr>bz_buy = None, bz_sell = Some 100, bz_updatedAt = 0\<rparr>,
         ''TORCH'' \<mapsto> \<lparr>bz_buy = None, bz_sell = Some 50, bz_updatedAt = 0\<rparr>],
      lbinCache = Map.empty, calls = [], tick = 0\<rparr>"

definition pick_env :: env where
  "pick_env =
     \<lparr>clock = (\<lambda>k. 1000 + int k),
      recipe_api = (\<lambda>name. if name = ''PICK'' then Some pick_recipe
                          else if name = ''TORCH'' then Some torch_recipe else None),
      auction_api = (\<lambda>name. None),
      easyItems = Map.empty\<rparr>"



text \<open>A sword that is only sold at auction: two listings with a numeric price, one with
  a price that is a string, and one that is no listing at all.\<close>

definition sword_listings :: "jsval list" where
  "sword_listings =
     [JObj [(''startingBid'', JNum 500)],
      JObj [(''price'', JNum 300), (''bid'', JNum 100)],
      JObj [(''startingBid'', JStr ''1'')],
      JNum 7]"

definition sword_env :: env where
  "sword_env =
     pick_env\<lparr>auction_api := (\<lambda>name. if name = ''SWORD'' then Some (JArr sword_listings)
                                     else None)\<rparr>"

text \<open>The same sword with an observation of five milliseconds ago in the in-memory cache.\<close>

definition sword_cached_state :: state where
  "sword_cached_state =
     pick_state\<lparr>lbinCache := [''SWORD'' \<mapsto> \<lparr>lb_price = 250, lb_updatedAt = 995\<rparr>]\<rparr>"

text \<open>The margin of the pickaxe in the first world.\<close>

definition pick_margin :: margin_record where
  "pick_margin =
     \<lparr>m_item = ''PICK'', m_costPerUnit = 25, m_sellPrice = 100, m_profit = 75,
      m_marginPercent = 300,
      m_breakdown =
        [\<lparr>bd_item = ''COBBLESTONE'', bd_count = JNum 2, bd_unitPrice = 10,
          bd_source = ''bazaar'', bd_layers = 0\<rparr>,
         \<lparr>bd_item = ''STICK'', bd_count = JNum 1, bd_unitPrice = 5,
          bd_source = ''bazaar'', bd_layers = 0\<rparr>],
      m_craftLayers = 0\<rparr>"



section \<open>Basic facts\<close>

lemma upper_char_idem: "upper_char (upper_char c) = upper_char c"
  by (auto simp: upper_char_def Let_def)

lemma toUpperCase_idem: "toUpperCase (toUpperCase s) = toUpperCase s"
  by (simp add: toUpperCase_def upper_char_idem)

lemma toUpperCase_Nil_iff: "toUpperCase s = [] \<longleftrightarrow> s = []"
  by (simp add: toUpperCase_def)

lemma js_round_of_int: "js_round (rat_of_int n) = n"
  by (simp add: js_round_def floor_eq_iff)

lemma outputCount_pos: "1 \<le> outputCount (parseRecipeSlots recipe)"
  by (auto simp: parseRecipeSlots_def split: option.splits)

lemma or1_outputCount:
  "or1 (outputCount (parseRecipeSlots recipe)) = outputCount (parseRecipeSlots recipe)"
  using outputCount_pos [of recipe] by (simp add: or1_def)

subsection \<open>Invariants of a resolution\<close>

lemma steps_keepD:
  assumes "steps_keep e I" and "I v s"
  shows "I v (upsert_price name p src lay now s)"
    and "I v (snd (getRecipeCached e name s))"
    and "I v (snd (nowTs e s))"
    and "I v (snd (fetchLBIN e name s))"
    and "I (insert name v) s"
  using assms by (simp_all add: steps_keep_def)

lemma craftLoop_inv:
  assumes step: "resolve_keeps I resolve"
  shows "I visited st \<Longrightarrow>
         craftLoop resolve ings tot ml visited st = Some (q, visited', st') \<Longrightarrow> I visited' st'"
proof (induction ings arbitrary: tot ml visited st)
  case Nil
  then show ?case by simp
next
  case (Cons ing ings)
  have s: "\<And>name v s q v1 s1. I v s \<Longrightarrow> resolve name v s = Some (q, v1, s1) \<Longrightarrow> I v1 s1"
    using step unfolding resolve_keeps_def by blast
  from Cons.prems show ?case
    by (auto split: jsval.splits option.splits sum.splits prod.splits
             dest: s Cons.IH)
qed

lemma easyStep_inv:
  assumes "steps_keep e I"
  shows "I visited st \<Longrightarrow>
         easyStep e name now visited st = Some (q, visited', st') \<Longrightarrow> I visited' st'"
  using steps_keepD(1) [OF assms]
  by (auto simp: easyStep_def split: option.splits)

lemma craftStep_inv:
  assumes step: "resolve_keeps I resolve" and keep: "steps_keep e I"
    and i: "I visited st"
    and c: "craftStep resolve e name now visited st = Some (q, visited', st')"
  shows "I visited' st'"
proof -
  obtain recipe st1 where g: "getRecipeCached e name st = (recipe, st1)"
    by (cases "getRecipeCached e name st")
  have i1: "I visited st1"
    using steps_keepD(2) [OF keep i, of name] g by simp
  show ?thesis
  proof (cases "truthy recipe \<and> ingredients (parseRecipeSlots recipe) \<noteq> []")
    case False
    with c g have "easyStep e name now visited st1 = Some (q, visited', st')"
      by (auto simp: craftStep_def)
    then show ?thesis using easyStep_inv [OF keep i1] by blast
  next
    case True
    show ?thesis
    proof (cases "craftLoop resolve (ingredients (parseRecipeSlots recipe)) 0 0 visited st1")
      case None
      with c g True show ?thesis by (simp add: craftStep_def)
    next
      case (Some a)
      obtain q2 v2 st2 where a: "a = (q2, v2, st2)" by (cases a)
      have i2: "I v2 st2" using craftLoop_inv [OF step i1] Some a by blast
      have u: "\<And>p src lay. I v2 (upsert_price name p src lay now st2)"
        by (rule steps_keepD(1) [OF keep i2])
      show ?thesis
      proof (cases q2)
        case (Inl err)
        with c g True Some a i2 show ?thesis by (simp add: craftStep_def)
      next
        case (Inr po)
        show ?thesis
        proof (cases po)
          case None
          with c g True Some a Inr
          have "easyStep e name now v2 st2 = Some (q, visited', st')"
            by (simp add: craftStep_def)
          then show ?thesis using easyStep_inv [OF keep i2] by blast
        next
          case (Some tm)
          obtain t m where tm: "tm = (t, m)" by (cases tm)
          from c g True \<open>craftLoop resolve (ingredients (parseRecipeSlots recipe)) 0 0 visited st1
              = Some a\<close> a Inr Some tm
          have "visited' = v2"
            and "st' = upsert_price name
                   (js_round (t / rat_of_int (or1 (outputCount (parseRecipeSlots recipe)))))
                   ''craft'' m now st2"
            by (simp_all add: craftStep_def Let_def)
          then show ?thesis using u by simp
        qed
      qed
    qed
  qed
qed

lemma sources_inv:
  assumes step: "resolve_keeps I resolve" and keep: "steps_keep e I"
    and i: "I visited st"
    and c: "sources resolve e name visited st = Some (q, visited', st')"
  shows "I visited' st'"
proof -
  obtain t st1 where n: "nowTs e st = (t, st1)" by (cases "nowTs e st")
  have i1: "I visited st1"
    using steps_keepD(3) [OF keep i] n by simp
  obtain m st2 where f: "fetchLBIN e name st1 = (m, st2)" by (cases "fetchLBIN e name st1")
  have i2: "I visited st2"
    using steps_keepD(4) [OF keep i1, of name] f by simp
  have u: "\<And>p src lay. I visited (upsert_price name p src lay t st1)"
    by (rule steps_keepD(1) [OF keep i1])
  show ?thesis
  proof (cases "fresh_row st1 name t")
    case (Some pr)
    with c n i1 show ?thesis by (simp add: sources_def)
  next
    case None
    note fr = this
    show ?thesis
    proof (cases "bazaar_buy st1 name")
      case (Some b)
      with c n fr u show ?thesis by (auto simp: sources_def)
    next
      case None
      note bb = this
      show ?thesis
      proof (cases "fresh_lbin st1 name t")
        case (Some l)
        with c n fr bb u show ?thesis by (auto simp: sources_def)
      next
        case None
        note fl = this
        show ?thesis
        proof (cases m)
          case (Some x)
          with c n fr bb fl f i2 show ?thesis by (simp add: sources_def)
        next
          case None
          with c n fr bb fl f
          have "craftStep resolve e name t visited st2 = Some (q, visited', st')"
            by (simp add: sources_def)
          then show ?thesis by (rule craftStep_inv [OF step keep i2])
        qed
      qed
    qed
  qed
qed

lemma getItemPrice_inv:
  assumes keep: "steps_keep e I"
  shows "I visited st \<Longrightarrow>
         getItemPrice n e itemName visited st = Some (q, visited', st') \<Longrightarrow> I visited' st'"
proof (induction n arbitrary: itemName visited st q visited' st')
  case 0
  then show ?case by simp
next
  case (Suc n)
  have step: "resolve_keeps I (getItemPrice n e)"
    unfolding resolve_keeps_def using Suc.IH by blast
  have ins: "I (insert (toUpperCase itemName) visited) st"
    by (rule steps_keepD(5) [OF keep Suc.prems(1)])
  from Suc.prems show ?case
    using sources_inv [OF step keep ins]
    by (auto split: if_splits)
qed

lemma getItemPrice_keeps: "steps_keep e I \<Longrightarrow> resolve_keeps I (getItemPrice n e)"
  unfolding resolve_keeps_def using getItemPrice_inv by blast

subsection \<open>Reading the clock changes no table\<close>

lemma fresh_row_tick [simp]: "fresh_row (st\<lparr>tick := k\<rparr>) name now = fresh_row st name now"
  by (simp add: fresh_row_def)

lemma bazaar_buy_tick [simp]: "bazaar_buy (st\<lparr>tick := k\<rparr>) name = bazaar_buy st name"
  by (simp add: bazaar_buy_def)

lemma fresh_lbin_tick [simp]: "fresh_lbin (st\<lparr>tick := k\<rparr>) name now = fresh_lbin st name now"
  by (simp add: fresh_lbin_def)

subsection \<open>The lowest listing\<close>

lemma Min_step:
  fixes p q :: rat
  assumes "finite S"
  shows "Min (insert (if p < q then p else q) S) = Min (insert q (insert p S))"
proof (cases "S = {}")
  case True
  then show ?thesis by (simp add: min_def)
next
  case False
  with assms show ?thesis by (auto simp: min_def)
qed

lemma lowest_min:
  "JNull \<notin> set as \<Longrightarrow>
   lowest as acc =
     Inr (case acc of
            None \<Rightarrow> if numeric_prices as = [] then None
                    else Some (Min (set (numeric_prices as)))
          | Some q \<Rightarrow> Some (Min (insert q (set (numeric_prices as)))))"
proof (induction as arbitrary: acc)
  case Nil
  then show ?case by (simp add: numeric_prices_def split: option.splits)
next
  case (Cons a as)
  then obtain v where v: "listing_price a = Inr v"
    by (auto simp: listing_price_def)
  have notnull: "JNull \<notin> set as" using Cons.prems by simp
  show ?case
  proof (cases "\<exists>p. v = JNum p")
    case True
    then obtain p where p: "v = JNum p" by blast
    have np: "numeric_prices (a # as) = p # numeric_prices as"
      using v p by (simp add: numeric_prices_def)
    show ?thesis
    proof (cases acc)
      case None
      have "lowest (a # as) acc = lowest as (Some p)"
        using v p None by simp
      also have "\<dots> = Inr (Some (Min (insert p (set (numeric_prices as)))))"
        using Cons.IH [OF notnull, of "Some p"] by simp
      finally show ?thesis using None np by simp
    next
      case (Some q)
      have "lowest (a # as) acc = lowest as (Some (if p < q then p else q))"
        using v p Some by simp
      also have "\<dots> = Inr (Some (Min (insert (if p < q then p else q)
                                          (set (numeric_prices as)))))"
        using Cons.IH [OF notnull, of "Some (if p < q then p else q)"] by simp
      also have "\<dots> = Inr (Some (Min (insert q (insert p (set (numeric_prices as))))))"
        by (simp only: Min_step [OF finite_set])
      finally show ?thesis using Some np by simp
    qed
  next
    case False
    then have np: "numeric_prices (a # as) = numeric_prices as"
      using v by (cases v) (simp_all add: numeric_prices_def)
    have "lowest (a # as) acc = lowest as acc"
      using v False by (cases v) simp_all
    then show ?thesis
      unfolding np using Cons.IH [OF notnull, of acc] by (simp only:)
  qed
qed

subsection \<open>Upper case\<close>

lemma getItemPrice_upper:
  "getItemPrice n e (toUpperCase x) visited st = getItemPrice n e x visited st"
  by (cases n) (simp_all add: toUpperCase_idem toUpperCase_Nil_iff)

lemma itemPrice_upper: "itemPrice st (toUpperCase x) = itemPrice st x"
  by (simp add: itemPrice_def toUpperCase_idem)

subsection \<open>The margin table is written by the margin computation only\<close>

lemma steps_keep_margins: "steps_keep e (\<lambda>v s. db_margins s = M)"
  by (auto simp: steps_keep_def upsert_price_def getRecipeCached_def fetchAndStoreRecipe_def
      nowTs_def fetchLBIN_def Let_def
      split: option.splits jsval.splits list.splits sum.splits)

lemma getRecipeCached_margins: "db_margins (snd (getRecipeCached e name st)) = db_margins st"
  by (auto simp: getRecipeCached_def fetchAndStoreRecipe_def nowTs_def Let_def
      split: option.splits)

lemma marginLoop_inv:
  assumes step: "resolve_keeps (\<lambda>v. J) resolve"
  shows "J st \<Longrightarrow> marginLoop resolve ings tot bd ml st = Some (q, st') \<Longrightarrow> J st'"
proof (induction ings arbitrary: tot bd ml st)
  case Nil
  then show ?case by simp
next
  case (Cons ing ings)
  have s: "\<And>name v s q v1 s1. J s \<Longrightarrow> resolve name v s = Some (q, v1, s1) \<Longrightarrow> J s1"
    using step unfolding resolve_keeps_def by blast
  from Cons.prems show ?case
    by (auto split: jsval.splits option.splits sum.splits prod.splits
             dest: s Cons.IH)
qed

lemma marginLoop_margins:
  assumes "marginLoop (getItemPrice n e) ings tot bd ml st = Some (q, st')"
  shows "db_margins st' = db_margins st"
  using marginLoop_inv [where J = "\<lambda>s. db_margins s = db_margins st",
      OF getItemPrice_keeps [OF steps_keep_margins] _ assms]
  by simp


text \<open>An ingredient without a price, reached after the ones before it were priced, ends
  the loop with \<^verbatim>\<open>null\<close>.\<close>

lemma marginLoop_unpriceable:
  assumes "marginLoop resolve pre tot bd ml st = Some (Inr (Some (tot1, bd1, ml1)), st1)"
    and "ing_item ing = JStr s"
    and "resolve (toUpperCase s) {} st1 = Some (Inr None, v, st2)"
  shows "marginLoop resolve (pre @ ing # post) tot bd ml st = Some (Inr None, st2)"
  using assms
  by (induction pre arbitrary: tot bd ml st)
     (auto split: jsval.splits option.splits sum.splits prod.splits)



subsection \<open>A margin that was computed\<close>

lemma result_ofD: "result_of out = Some r \<Longrightarrow> \<exists>s. out = Some (r, s)"
  by (auto simp: result_of_def)

lemma computeMarginForItem_success:
  assumes "computeMarginForItem n e itemName st = Some (Inr (Some mr), st')"
  shows "\<exists>sellv tot bd ml st2.
    bazaar_sell st itemName = Some sellv
    \<and> truthy (fst (getRecipeCached e itemName st))
    \<and> ingredients (parseRecipeSlots (fst (getRecipeCached e itemName st))) \<noteq> []
    \<and> marginLoop (getItemPrice n e)
         (ingredients (parseRecipeSlots (fst (getRecipeCached e itemName st))))
         0 [] 0 (snd (getRecipeCached e itemName st)) = Some (Inr (Some (tot, bd, ml)), st2)
    \<and> mr = marginOf itemName sellv tot
             (outputCount (parseRecipeSlots (fst (getRecipeCached e itemName st)))) bd ml
    \<and> st' = upsert_margin mr (clock e (tick st2)) (st2\<lparr>tick := Suc (tick st2)\<rparr>)"
  using assms
  by (auto simp: computeMarginForItem_def Let_def nowTs_def
      split: option.splits prod.splits if_splits sum.splits)

lemma marginOf_fields:
  "m_item (marginOf itemName sellv tot oc bd ml) = itemName"
  "m_breakdown (marginOf itemName sellv tot oc bd ml) = bd"
  "m_costPerUnit (marginOf itemName sellv tot oc bd ml) = js_round (tot / rat_of_int (or1 oc))"
  "m_sellPrice (marginOf itemName sellv tot oc bd ml) = js_round sellv"
  "m_profit (marginOf itemName sellv tot oc bd ml) =
     m_sellPrice (marginOf itemName sellv tot oc bd ml)
     - m_costPerUnit (marginOf itemName sellv tot oc bd ml)"
  "m_marginPercent (marginOf itemName sellv tot oc bd ml) =
     (if 0 < m_costPerUnit (marginOf itemName sellv tot oc bd ml)
      then toFixed2 (rat_of_int (m_profit (marginOf itemName sellv tot oc bd ml))
                     / rat_of_int (m_costPerUnit (marginOf itemName sellv tot oc bd ml)) * 100)
      else 0)"
  by (simp_all add: marginOf_def Let_def js_round_of_int flip: of_int_diff)


subsection \<open>The craft loop and the prices of the ingredients\<close>

lemma Max_absorb:
  fixes S :: "int set"
  assumes "finite S"
  shows "ml \<le> l \<Longrightarrow> Max (insert ml (insert (l + 1) S)) = Max (insert (l + 1) S)"
    and "\<not> ml \<le> l \<Longrightarrow> Max (insert ml (insert (l + 1) S)) = Max (insert ml S)"
proof -
  show "ml \<le> l \<Longrightarrow> Max (insert ml (insert (l + 1) S)) = Max (insert (l + 1) S)"
    using assms by (cases "S = {}") (auto simp: max_def)
  show "\<not> ml \<le> l \<Longrightarrow> Max (insert ml (insert (l + 1) S)) = Max (insert ml S)"
    using assms by (cases "S = {}") (auto simp: max_def)
qed

lemma cost_sum_Cons: "cost_sum ((sub, c) # subs) = rat_of_int (p_price sub) * c + cost_sum subs"
  by (simp add: cost_sum_def)

lemma layers_of_Cons: "layers_of ((sub, c) # subs) = insert (p_layers sub) (layers_of subs)"
  by (simp add: layers_of_def)

lemma layers_of_Nil: "layers_of [] = {}"
  by (simp add: layers_of_def)

lemma finite_layers_of: "finite (layers_of subs)"
  by (simp add: layers_of_def)

lemma craftLoop_subResults:
  "craftLoop resolve ings tot ml visited st =
     (case subResults resolve ings visited st of
        None \<Rightarrow> None
      | Some (Inl err, v', s') \<Rightarrow> Some (Inl err, v', s')
      | Some (Inr None, v', s') \<Rightarrow> Some (Inr None, v', s')
      | Some (Inr (Some subs), v', s') \<Rightarrow>
          Some (Inr (Some (tot + cost_sum subs,
                           Max (insert ml ((\<lambda>l. l + 1) ` layers_of subs)))), v', s'))"
proof (induction ings arbitrary: tot ml visited st)
  case Nil
  then show ?case by (simp add: cost_sum_def layers_of_def)
next
  case (Cons ing ings)
  have fin: "\<And>subs. finite ((\<lambda>l. l + 1) ` layers_of subs)"
    by (simp add: finite_layers_of)
  show ?case
  proof (cases "ing_item ing")
    case (JStr s)
    show ?thesis
    proof (cases "resolve (toUpperCase s) visited st")
      case None
      with JStr show ?thesis by simp
    next
      case (Some a)
      obtain q v1 st1 where a: "a = (q, v1, st1)" by (cases a)
      show ?thesis
      proof (cases q)
        case (Inl err)
        with JStr Some a show ?thesis by simp
      next
        case (Inr po)
        show ?thesis
        proof (cases po)
          case None
          with JStr Some a Inr show ?thesis by simp
        next
          case (Some sub)
          note sub = this
          show ?thesis
          proof (cases "factor (ingCount ing)")
            case None
            with JStr \<open>resolve (toUpperCase s) visited st = Some a\<close> a Inr sub
            show ?thesis by simp
          next
            case (Some c)
            with JStr \<open>resolve (toUpperCase s) visited st = Some a\<close> a Inr sub
            show ?thesis
              by (simp add: Cons.IH cost_sum_Cons layers_of_Cons Max_absorb [OF fin] add.assoc
                  del: Max_insert
                  split: option.splits sum.splits prod.splits)
          qed
        qed
      qed
    qed
  qed simp_all
qed


lemma subResults_ok:
  assumes r: "resolve_ok resolve"
  shows "prices_ok st \<Longrightarrow> subResults resolve ings visited st = Some (q, v', st') \<Longrightarrow>
         prices_ok st' \<and> (\<forall>subs. q = Inr (Some subs) \<longrightarrow> (\<forall>l\<in>layers_of subs. 0 \<le> l))"
proof (induction ings arbitrary: visited st q v' st')
  case Nil
  then show ?case by (auto simp: layers_of_def)
next
  case (Cons ing ings)
  have s: "\<And>name v s q v1 s1. prices_ok s \<Longrightarrow> resolve name v s = Some (q, v1, s1) \<Longrightarrow>
        prices_ok s1 \<and> (\<forall>r. q = Inr (Some r) \<longrightarrow> res_ok r)"
    using r unfolding resolve_ok_def by blast
  show ?case
  proof (cases "ing_item ing")
    case (JStr x)
    show ?thesis
    proof (cases "resolve (toUpperCase x) visited st")
      case None
      with JStr Cons.prems show ?thesis by simp
    next
      case (Some a)
      obtain q1 v1 st1 where a: "a = (q1, v1, st1)" by (cases a)
      have ok1: "prices_ok st1" and r1: "\<forall>r. q1 = Inr (Some r) \<longrightarrow> res_ok r"
        using s [OF Cons.prems(1)] Some a by blast+
      show ?thesis
      proof (cases "\<exists>sub c. q1 = Inr (Some sub) \<and> factor (ingCount ing) = Some c")
        case False
        with JStr Some a Cons.prems(2) ok1 show ?thesis
          by (auto split: option.splits sum.splits)
      next
        case True
        then obtain sub c where q1: "q1 = Inr (Some sub)" and c: "factor (ingCount ing) = Some c"
          by blast
        have rs: "0 \<le> p_layers sub" using r1 q1 by (simp add: res_ok_def)
        show ?thesis
        proof (cases "subResults resolve ings v1 st1")
          case None
          with JStr Some a q1 c Cons.prems(2) show ?thesis
            using \<open>resolve (toUpperCase x) visited st = Some a\<close> by simp
        next
          case (Some b)
          obtain q2 v2 st2 where b: "b = (q2, v2, st2)" by (cases b)
          have ih: "prices_ok st2 \<and> (\<forall>subs. q2 = Inr (Some subs) \<longrightarrow> (\<forall>l\<in>layers_of subs. 0 \<le> l))"
            using Cons.IH [OF ok1] Some b by blast
          from JStr \<open>resolve (toUpperCase x) visited st = Some a\<close> a q1 c Some b Cons.prems(2) ih rs
          show ?thesis
            by (auto simp: layers_of_Cons split: option.splits sum.splits)
        qed
      qed
    qed
  qed (use Cons.prems in auto)
qed


subsection \<open>Sound layers\<close>

lemma craftStep_unfold:
  assumes g: "getRecipeCached e name st = (recipe, st1)"
  shows "craftStep resolve e name now visited st =
     (if truthy recipe \<and> ingredients (parseRecipeSlots recipe) \<noteq> []
      then (case craftLoop resolve (ingredients (parseRecipeSlots recipe)) 0 0 visited st1 of
              None \<Rightarrow> None
            | Some (Inl err, visited2, st2) \<Rightarrow> Some (Inl err, visited2, st2)
            | Some (Inr None, visited2, st2) \<Rightarrow> easyStep e name now visited2 st2
            | Some (Inr (Some (tot, maxLayer)), visited2, st2) \<Rightarrow>
                Some (Inr (Some \<lparr>p_price = js_round (tot / rat_of_int (outputCount (parseRecipeSlots recipe))),
                                 p_source = ''craft'', p_layers = maxLayer\<rparr>),
                      visited2,
                      upsert_price name
                        (js_round (tot / rat_of_int (outputCount (parseRecipeSlots recipe))))
                        ''craft'' maxLayer now st2))
      else easyStep e name now visited st1)"
  unfolding craftStep_def Let_def g prod.case or1_outputCount ..

lemma sources_unfold:
  "sources resolve e name visited st =
     (case fresh_row st name (clock e (tick st)) of
        Some pr \<Rightarrow>
          Some (Inr (Some \<lparr>p_price = pr_price pr, p_source = pr_source pr,
                           p_layers = pr_layers pr\<rparr>), visited, snd (nowTs e st))
      | None \<Rightarrow>
     (case bazaar_buy st name of
        Some b \<Rightarrow>
          Some (Inr (Some \<lparr>p_price = js_round b, p_source = ''bazaar'', p_layers = 0\<rparr>), visited,
                upsert_price name (js_round b) ''bazaar'' 0 (clock e (tick st)) (snd (nowTs e st)))
      | None \<Rightarrow>
     (case fresh_lbin st name (clock e (tick st)) of
        Some c \<Rightarrow>
          Some (Inr (Some \<lparr>p_price = js_round (lb_price c), p_source = ''lbin'', p_layers = 0\<rparr>),
                visited, upsert_price name (js_round (lb_price c)) ''lbin'' 0 (clock e (tick st))
                           (snd (nowTs e st)))
      | None \<Rightarrow>
     (case fst (fetchLBIN e name (snd (nowTs e st))) of
        Some m \<Rightarrow>
          Some (Inr (Some \<lparr>p_price = js_round m, p_source = ''lbin'', p_layers = 0\<rparr>), visited,
                snd (fetchLBIN e name (snd (nowTs e st))))
      | None \<Rightarrow> craftStep resolve e name (clock e (tick st)) visited
                  (snd (fetchLBIN e name (snd (nowTs e st))))))))"
  by (simp add: sources_def nowTs_def split: option.splits prod.splits)

lemma prices_ok_upsert:
  "prices_ok st \<Longrightarrow> 0 \<le> lay \<Longrightarrow> (src \<noteq> ''craft'' \<longrightarrow> lay = 0) \<Longrightarrow>
   prices_ok (upsert_price name p src lay now st)"
  by (simp add: prices_ok_def upsert_price_def row_ok_def)

lemma prices_ok_nowTs: "prices_ok (snd (nowTs e st)) = prices_ok st"
  by (simp add: prices_ok_def nowTs_def)

lemma getRecipeCached_prices: "db_prices (snd (getRecipeCached e name st)) = db_prices st"
  by (auto simp: getRecipeCached_def fetchAndStoreRecipe_def nowTs_def Let_def
      split: option.splits)

lemma prices_ok_getRecipeCached: "prices_ok (snd (getRecipeCached e name st)) = prices_ok st"
  by (simp add: prices_ok_def getRecipeCached_prices)

lemma prices_ok_fetchLBIN: "prices_ok st \<Longrightarrow> prices_ok (snd (fetchLBIN e name st))"
  by (auto simp: fetchLBIN_def nowTs_def Let_def prices_ok_def upsert_price_def row_ok_def
      split: option.splits jsval.splits list.splits sum.splits)

lemma easyStep_ok:
  "prices_ok st \<Longrightarrow> easyStep e name now visited st = Some (q, v', st') \<Longrightarrow>
   prices_ok st' \<and> (\<forall>r. q = Inr (Some r) \<longrightarrow> res_ok r)"
  by (auto simp: easyStep_def res_ok_def prices_ok_upsert split: option.splits)

lemma craftLoop_ok:
  assumes r: "resolve_ok resolve" and ok: "prices_ok st"
    and c: "craftLoop resolve ings tot ml visited st = Some (q, v', st')"
  shows "prices_ok st' \<and> (\<forall>t m. q = Inr (Some (t, m)) \<longrightarrow> ml \<le> m)"
proof (cases "subResults resolve ings visited st")
  case None
  with c show ?thesis by (simp add: craftLoop_subResults)
next
  case (Some a)
  obtain q1 v1 st1 where a: "a = (q1, v1, st1)" by (cases a)
  have ok1: "prices_ok st1"
    using subResults_ok [OF r ok] Some a by blast
  from c Some a ok1 show ?thesis
    by (auto simp: craftLoop_subResults finite_layers_of split: sum.splits option.splits)
qed

lemma craftStep_ok:
  assumes r: "resolve_ok resolve" and ok: "prices_ok st"
    and c: "craftStep resolve e name now visited st = Some (q, v', st')"
  shows "prices_ok st' \<and> (\<forall>r. q = Inr (Some r) \<longrightarrow> res_ok r)"
proof -
  obtain recipe st1 where g: "getRecipeCached e name st = (recipe, st1)"
    by (cases "getRecipeCached e name st")
  have ok1: "prices_ok st1"
    using prices_ok_getRecipeCached [of e name st] ok g by simp
  show ?thesis
  proof (cases "truthy recipe \<and> ingredients (parseRecipeSlots recipe) \<noteq> []")
    case False
    with c have "easyStep e name now visited st1 = Some (q, v', st')"
      unfolding craftStep_unfold [OF g] by (simp split: if_splits)
    then show ?thesis by (rule easyStep_ok [OF ok1])
  next
    case True
    show ?thesis
    proof (cases "craftLoop resolve (ingredients (parseRecipeSlots recipe)) 0 0 visited st1")
      case None
      with c True show ?thesis unfolding craftStep_unfold [OF g] by simp
    next
      case (Some a)
      obtain q2 v2 st2 where a: "a = (q2, v2, st2)" by (cases a)
      have l: "prices_ok st2 \<and> (\<forall>t m. q2 = Inr (Some (t, m)) \<longrightarrow> 0 \<le> m)"
        using craftLoop_ok [OF r ok1] Some a by blast
      show ?thesis
      proof (cases q2)
        case (Inl err)
        with c True Some a l show ?thesis unfolding craftStep_unfold [OF g] by auto
      next
        case (Inr po)
        show ?thesis
        proof (cases po)
          case None
          with c True Some a Inr
          have "easyStep e name now v2 st2 = Some (q, v', st')"
            unfolding craftStep_unfold [OF g] by simp
          then show ?thesis using easyStep_ok l by blast
        next
          case (Some tm)
          obtain t m where tm: "tm = (t, m)" by (cases tm)
          from c True \<open>craftLoop resolve (ingredients (parseRecipeSlots recipe)) 0 0 visited st1
              = Some a\<close> a Inr Some tm l
          show ?thesis
            unfolding craftStep_unfold [OF g]
            by (auto simp: res_ok_def prices_ok_upsert)
        qed
      qed
    qed
  qed
qed

lemma fresh_row_ok: "prices_ok st \<Longrightarrow> fresh_row st name now = Some pr \<Longrightarrow> row_ok pr"
  by (auto simp: fresh_row_def prices_ok_def split: option.splits if_splits)

lemma sources_ok:
  assumes r: "resolve_ok resolve" and ok: "prices_ok st"
    and c: "sources resolve e name visited st = Some (q, v', st')"
  shows "prices_ok st' \<and> (\<forall>r. q = Inr (Some r) \<longrightarrow> res_ok r)"
proof -
  have ok1: "prices_ok (snd (nowTs e st))" using ok by (simp add: prices_ok_nowTs)
  have ok2: "prices_ok (snd (fetchLBIN e name (snd (nowTs e st))))"
    by (rule prices_ok_fetchLBIN [OF ok1])
  show ?thesis
  proof (cases "fresh_row st name (clock e (tick st))")
    case (Some pr)
    with c ok1 fresh_row_ok [OF ok Some] show ?thesis
      unfolding sources_unfold by (auto simp: res_ok_def row_ok_def)
  next
    case None
    note fr = this
    show ?thesis
    proof (cases "bazaar_buy st name")
      case (Some b)
      with c fr ok1 show ?thesis
        unfolding sources_unfold by (auto simp: res_ok_def prices_ok_upsert)
    next
      case None
      note bb = this
      show ?thesis
      proof (cases "fresh_lbin st name (clock e (tick st))")
        case (Some l)
        with c fr bb ok1 show ?thesis
          unfolding sources_unfold by (auto simp: res_ok_def prices_ok_upsert)
      next
        case None
        note fl = this
        show ?thesis
        proof (cases "fst (fetchLBIN e name (snd (nowTs e st)))")
          case (Some m)
          with c fr bb fl ok2 show ?thesis
            unfolding sources_unfold by (auto simp: res_ok_def)
        next
          case None
          with c fr bb fl
          have "craftStep resolve e name (clock e (tick st)) visited
                  (snd (fetchLBIN e name (snd (nowTs e st)))) = Some (q, v', st')"
            unfolding sources_unfold by simp
          then show ?thesis by (rule craftStep_ok [OF r ok2])
        qed
      qed
    qed
  qed
qed


subsection \<open>A price from the craft branch\<close>


lemma sources_not_craft:
  assumes ok: "prices_ok st" and r: "resolve_ok resolve"
    and c: "sources resolve e name visited st = Some (Inr (Some r), visited', st')"
    and src: "p_source r \<noteq> ''craft''"
  shows "p_layers r = 0"
  using sources_ok [OF r ok c] src by (simp add: res_ok_def)

subsection \<open>Termination\<close>












subsection \<open>A cycle of two items without another source\<close>




lemma revisit_fails:
  "toUpperCase x \<in> v \<Longrightarrow> getItemPrice (Suc k) e x v s = Some (Inr None, v, s)"
  by simp




section \<open>The per-item query on an unknown item\<close>



section \<open>The recipe parser on a record slot\<close>

text \<open>
  C8. A string slot \<^verbatim>\<open>"STICK:abc"\<close> is parsed with the count 1, since the string branch
  replaces a NaN count by 1. The same string as the first value of a record slot is parsed
  by the other branch, which has no such test: the count stays NaN.
\<close>

theorem parseRecipeSlots_record_slot_nan:
  "parseRecipeSlots (JObj [(''A1'', JStr ''STICK:abc'')]) =
     \<lparr>ingredients = [\<lparr>ing_item = JStr ''STICK'', ing_count = JNum 1\<rparr>], outputCount = 1\<rparr>
   \<and> parseRecipeSlots (JObj [(''A1'', JObj [(''slot'', JStr ''STICK:abc'')])]) =
     \<lparr>ingredients = [\<lparr>ing_item = JStr ''STICK'', ing_count = JNaN\<rparr>], outputCount = 1\<rparr>"
  by code_simp

section \<open>A fresh price is returned as it is\<close>



section \<open>The order of the price sources\<close>



section \<open>Both auction steps leave a price row\<close>

text \<open>
  C7, as stated, fails: after the live fetch has priced the sword, the price table holds a
  row for it that was not there before. \<^verbatim>\<open>getItemPrice\<close> issues no write of its own in
  that step, but \<^verbatim>\<open>fetchLBIN\<close>, which it calls, has upserted the row.
\<close>

theorem live_auction_low_counterexample:
  "db_prices pick_state ''SWORD'' = None
   \<and> result_of (getItemPrice 1 sword_env ''SWORD'' {} pick_state) =
       Some (Inr (Some \<lparr>p_price = 300, p_source = ''lbin'', p_layers = 0\<rparr>))
   \<and> db_prices (state_after (getItemPrice 1 sword_env ''SWORD'' {} pick_state)) ''SWORD'' =
       Some \<lparr>pr_price = 300, pr_source = ''lbin'', pr_layers = 0, pr_updatedAt = 1001\<rparr>"
  by code_simp

text \<open>
  C7, amended. Let a call get past the guard and find neither a fresh row nor a bazaar
  buy quote. If the in-memory cache has an unexpired observation, the call returns its
  rounded price with source lbin and layers 0, and the price table holds that row,
  stamped with the time the call started. If it has none and the provider answers with a
  list of listings, none of them null and at least one with a numeric price (the first of
  \<^verbatim>\<open>startingBid\<close>, \<^verbatim>\<open>price\<close>, \<^verbatim>\<open>bin\<close>, \<^verbatim>\<open>bid\<close> that is not null), the call returns the
  rounded minimum of those prices with source lbin and layers 0, and this result is
  persisted too: the price table holds the row and the in-memory cache the unrounded
  minimum, both stamped with the time \<^verbatim>\<open>fetchLBIN\<close> read.
\<close>

theorem auction_low_persisted:
  assumes "itemName \<noteq> []"
    and "name = toUpperCase itemName"
    and "name \<notin> visited"
    and "now = clock e (tick st)"
    and "fresh_row st name now = None"
    and "bazaar_buy st name = None"
  shows "(\<forall>c. fresh_lbin st name now = Some c \<longrightarrow>
            result_of (getItemPrice (Suc n) e itemName visited st) =
              Some (Inr (Some \<lparr>p_price = js_round (lb_price c), p_source = ''lbin'',
                               p_layers = 0\<rparr>))
            \<and> db_prices (state_after (getItemPrice (Suc n) e itemName visited st)) name =
                Some \<lparr>pr_price = js_round (lb_price c), pr_source = ''lbin'', pr_layers = 0,
                      pr_updatedAt = now\<rparr>)
       \<and> (fresh_lbin st name now = None \<and> auction_api e name = Some (JArr listings)
            \<and> JNull \<notin> set listings \<and> numeric_prices listings \<noteq> [] \<longrightarrow>
            result_of (getItemPrice (Suc n) e itemName visited st) =
              Some (Inr (Some \<lparr>p_price = js_round (Min (set (numeric_prices listings))),
                               p_source = ''lbin'', p_layers = 0\<rparr>))
            \<and> db_prices (state_after (getItemPrice (Suc n) e itemName visited st)) name =
                Some \<lparr>pr_price = js_round (Min (set (numeric_prices listings))),
                      pr_source = ''lbin'', pr_layers = 0,
                      pr_updatedAt = clock e (Suc (tick st))\<rparr>
            \<and> lbinCache (state_after (getItemPrice (Suc n) e itemName visited st)) name =
                Some \<lparr>lb_price = Min (set (numeric_prices listings)),
                      lb_updatedAt = clock e (Suc (tick st))\<rparr>)"
proof (intro conjI allI impI)
  fix c
  assume c: "fresh_lbin st name now = Some c"
  have run: "getItemPrice (Suc n) e itemName visited st =
      Some (Inr (Some \<lparr>p_price = js_round (lb_price c), p_source = ''lbin'', p_layers = 0\<rparr>),
            insert name visited,
            upsert_price name (js_round (lb_price c)) ''lbin'' 0 now (snd (nowTs e st)))"
    using assms c by (simp add: sources_def nowTs_def)
  show "result_of (getItemPrice (Suc n) e itemName visited st) =
      Some (Inr (Some \<lparr>p_price = js_round (lb_price c), p_source = ''lbin'', p_layers = 0\<rparr>))"
    unfolding run by (simp add: result_of_def)
  show "db_prices (state_after (getItemPrice (Suc n) e itemName visited st)) name =
      Some \<lparr>pr_price = js_round (lb_price c), pr_source = ''lbin'', pr_layers = 0,
            pr_updatedAt = now\<rparr>"
    unfolding run by (simp add: state_after_def upsert_price_def)
next
  assume h: "fresh_lbin st name now = None \<and> auction_api e name = Some (JArr listings)
      \<and> JNull \<notin> set listings \<and> numeric_prices listings \<noteq> []"
  let ?m = "Min (set (numeric_prices listings))"
  have low: "lowest listings None = Inr (Some ?m)"
    using h lowest_min [of listings None] by simp
  obtain a as where l: "listings = a # as"
    using h by (cases listings) (auto simp: numeric_prices_def)
  have f: "fetchLBIN e name (snd (nowTs e st)) =
      (Some ?m,
       upsert_price name (js_round ?m) ''lbin'' 0 (clock e (Suc (tick st)))
         ((snd (nowTs e st))\<lparr>calls := calls st @ [AuctionRequest name],
            tick := Suc (Suc (tick st)),
            lbinCache := (lbinCache st)(name \<mapsto>
               \<lparr>lb_price = ?m, lb_updatedAt = clock e (Suc (tick st))\<rparr>)\<rparr>))"
    using h low l by (simp add: fetchLBIN_def nowTs_def del: lowest.simps)
  have run: "getItemPrice (Suc n) e itemName visited st =
      Some (Inr (Some \<lparr>p_price = js_round ?m, p_source = ''lbin'', p_layers = 0\<rparr>),
            insert name visited, snd (fetchLBIN e name (snd (nowTs e st))))"
    using assms h f by (simp add: sources_def nowTs_def)
  show "result_of (getItemPrice (Suc n) e itemName visited st) =
      Some (Inr (Some \<lparr>p_price = js_round ?m, p_source = ''lbin'', p_layers = 0\<rparr>))"
    unfolding run by (simp add: result_of_def)
  show "db_prices (state_after (getItemPrice (Suc n) e itemName visited st)) name =
      Some \<lparr>pr_price = js_round ?m, pr_source = ''lbin'', pr_layers = 0,
            pr_updatedAt = clock e (Suc (tick st))\<rparr>"
    unfolding run by (simp add: state_after_def f upsert_price_def)
  show "lbinCache (state_after (getItemPrice (Suc n) e itemName visited st)) name =
      Some \<lparr>lb_price = ?m, lb_updatedAt = clock e (Suc (tick st))\<rparr>"
    unfolding run by (simp add: state_after_def f upsert_price_def)
qed

theorem auction_low_persisted_witness:
  "(''SWORD'' \<noteq> [] \<and> ''SWORD'' = toUpperCase ''SWORD'' \<and> ''SWORD'' \<notin> {}
     \<and> 1000 = clock pick_env (tick sword_cached_state)
     \<and> fresh_row sword_cached_state ''SWORD'' 1000 = None
     \<and> bazaar_buy sword_cached_state ''SWORD'' = None
     \<and> fresh_lbin sword_cached_state ''SWORD'' 1000 = Some \<lparr>lb_price = 250, lb_updatedAt = 995\<rparr>
     \<and> result_of (getItemPrice (Suc 0) pick_env ''SWORD'' {} sword_cached_state) =
         Some (Inr (Some \<lparr>p_price = 250, p_source = ''lbin'', p_layers = 0\<rparr>))
     \<and> db_prices (state_after (getItemPrice (Suc 0) pick_env ''SWORD'' {} sword_cached_state))
         ''SWORD'' =
         Some \<lparr>pr_price = 250, pr_source = ''lbin'', pr_layers = 0, pr_updatedAt = 1000\<rparr>)
   \<and> (1000 = clock sword_env (tick pick_state)
     \<and> fresh_row pick_state ''SWORD'' 1000 = None
     \<and> bazaar_buy pick_state ''SWORD'' = None
     \<and> fresh_lbin pick_state ''SWORD'' 1000 = None
     \<and> auction_api sword_env ''SWORD'' = Some (JArr sword_listings)
     \<and> JNull \<notin> set sword_listings
     \<and> numeric_prices sword_listings \<noteq> []
     \<and> result_of (getItemPrice (Suc 0) sword_env ''SWORD'' {} pick_state) =
         Some (Inr (Some \<lparr>p_price = 300, p_source = ''lbin'', p_layers = 0\<rparr>))
     \<and> db_prices (state_after (getItemPrice (Suc 0) sword_env ''SWORD'' {} pick_state)) ''SWORD'' =
         Some \<lparr>pr_price = 300, pr_source = ''lbin'', pr_layers = 0, pr_updatedAt = 1001\<rparr>
     \<and> lbinCache (state_after (getItemPrice (Suc 0) sword_env ''SWORD'' {} pick_state)) ''SWORD'' =
         Some \<lparr>lb_price = 300, lb_updatedAt = 1001\<rparr>)"
proof -
  have a1: "''SWORD'' \<noteq> []" by simp
  have a2: "''SWORD'' = toUpperCase ''SWORD''" by code_simp
  have a3: "''SWORD'' \<notin> {}" by simp
  have a4: "1000 = clock pick_env (tick sword_cached_state)" by code_simp
  have a5: "fresh_row sword_cached_state ''SWORD'' 1000 = None" by code_simp
  have a6: "bazaar_buy sword_cached_state ''SWORD'' = None" by code_simp
  have a7: "fresh_lbin sword_cached_state ''SWORD'' 1000 = Some \<lparr>lb_price = 250, lb_updatedAt = 995\<rparr>"
    by code_simp
  have r250: "js_round 250 = 250" by code_simp
  have b4: "1000 = clock sword_env (tick pick_state)" by code_simp
  have b5: "fresh_row pick_state ''SWORD'' 1000 = None" by code_simp
  have b6: "bazaar_buy pick_state ''SWORD'' = None" by code_simp
  have b7: "fresh_lbin pick_state ''SWORD'' 1000 = None" by code_simp
  have b8: "auction_api sword_env ''SWORD'' = Some (JArr sword_listings)" by code_simp
  have b9: "JNull \<notin> set sword_listings" by code_simp
  have b10: "numeric_prices sword_listings \<noteq> []" by code_simp
  have m: "Min (set (numeric_prices sword_listings)) = 300" by code_simp
  have r300: "js_round 300 = 300" by code_simp
  have c1001: "clock sword_env (Suc (tick pick_state)) = 1001" by code_simp
  have A: "result_of (getItemPrice (Suc 0) pick_env ''SWORD'' {} sword_cached_state) =
         Some (Inr (Some \<lparr>p_price = 250, p_source = ''lbin'', p_layers = 0\<rparr>))
     \<and> db_prices (state_after (getItemPrice (Suc 0) pick_env ''SWORD'' {} sword_cached_state))
         ''SWORD'' =
         Some \<lparr>pr_price = 250, pr_source = ''lbin'', pr_layers = 0, pr_updatedAt = 1000\<rparr>"
    using auction_low_persisted [OF a1 a2 a3 a4 a5 a6, of 0 listings] a7 r250
    by (simp del: getItemPrice.simps)
  have B: "result_of (getItemPrice (Suc 0) sword_env ''SWORD'' {} pick_state) =
         Some (Inr (Some \<lparr>p_price = 300, p_source = ''lbin'', p_layers = 0\<rparr>))
     \<and> db_prices (state_after (getItemPrice (Suc 0) sword_env ''SWORD'' {} pick_state)) ''SWORD'' =
         Some \<lparr>pr_price = 300, pr_source = ''lbin'', pr_layers = 0, pr_updatedAt = 1001\<rparr>
     \<and> lbinCache (state_after (getItemPrice (Suc 0) sword_env ''SWORD'' {} pick_state)) ''SWORD'' =
         Some \<lparr>lb_price = 300, lb_updatedAt = 1001\<rparr>"
    using auction_low_persisted [OF a1 a2 a3 b4 b5 b6, of 0 sword_listings] b7 b8 b9 b10 m r300 c1001
    by (simp del: getItemPrice.simps)
  show ?thesis
    using a1 a2 a3 a4 a5 a6 a7 b4 b5 b6 b7 b8 b9 b10 A B by (simp del: getItemPrice.simps)
qed

section \<open>The arithmetic of a margin record\<close>



section \<open>A margin computation that fails\<close>




section \<open>Upper case\<close>

text \<open>
  C9, as stated, fails for the margin computation: it takes its argument as the key as it
  is. The pickaxe has a margin under \<^verbatim>\<open>PICK\<close>; asked for \<^verbatim>\<open>pick\<close>, the computation finds
  no market quote and returns absent.
\<close>

theorem margin_key_counterexample:
  "result_of (computeMarginForItem 2 pick_env ''pick'' pick_state) = Some (Inr None)
   \<and> result_of (computeMarginForItem 2 pick_env ''PICK'' pick_state) = Some (Inr (Some pick_margin))
   \<and> toUpperCase ''pick'' = ''PICK''"
  by code_simp

text \<open>
  C9, amended. Price resolution and the per-item query turn their argument into upper
  case first, so either gives the same for a name and for its upper-cased form. The margin
  computation does not: the name it is given is, as it stands, the key of the market quote
  it needs, the item of the record it returns, and the one key of the margin table it
  writes.
\<close>

theorem identifier_case:
  assumes "result_of (computeMarginForItem n e itemName st) = Some (Inr (Some mr))"
  shows "getItemPrice k e x visited s = getItemPrice k e (toUpperCase x) visited s
     \<and> itemPrice s x = itemPrice s (toUpperCase x)
     \<and> m_item mr = itemName
     \<and> bazaarPrices st itemName \<noteq> None
     \<and> (\<exists>t. db_margins (margin_state (computeMarginForItem n e itemName st)) =
            (db_margins st)(itemName \<mapsto>
              \<lparr>mr_costPerUnit = m_costPerUnit mr, mr_sellPrice = m_sellPrice mr,
               mr_profit = m_profit mr, mr_marginPercent = m_marginPercent mr,
               mr_updatedAt = t\<rparr>))"
proof -
  from result_ofD [OF assms] obtain st' where
    run: "computeMarginForItem n e itemName st = Some (Inr (Some mr), st')" by blast
  from computeMarginForItem_success [OF run] obtain sellv tot bd ml st2 where
    sell: "bazaar_sell st itemName = Some sellv"
    and loop: "marginLoop (getItemPrice n e)
         (ingredients (parseRecipeSlots (fst (getRecipeCached e itemName st))))
         0 [] 0 (snd (getRecipeCached e itemName st)) = Some (Inr (Some (tot, bd, ml)), st2)"
    and mr: "mr = marginOf itemName sellv tot
             (outputCount (parseRecipeSlots (fst (getRecipeCached e itemName st)))) bd ml"
    and st': "st' = upsert_margin mr (clock e (tick st2)) (st2\<lparr>tick := Suc (tick st2)\<rparr>)"
    by blast
  have item: "m_item mr = itemName" unfolding mr by (rule marginOf_fields(1))
  have bz: "bazaarPrices st itemName \<noteq> None"
    using sell by (auto simp: bazaar_sell_def split: option.splits)
  have m2: "db_margins st2 = db_margins st"
    using marginLoop_margins [OF loop] getRecipeCached_margins [of e itemName st] by simp
  have tab: "db_margins (margin_state (computeMarginForItem n e itemName st)) =
            (db_margins st)(itemName \<mapsto>
              \<lparr>mr_costPerUnit = m_costPerUnit mr, mr_sellPrice = m_sellPrice mr,
               mr_profit = m_profit mr, mr_marginPercent = m_marginPercent mr,
               mr_updatedAt = clock e (tick st2)\<rparr>)"
    unfolding run margin_state_def by (simp add: st' upsert_margin_def item m2)
  show ?thesis
    using getItemPrice_upper [of k e x visited s] itemPrice_upper [of s x] item bz tab
    by metis
qed

theorem identifier_case_witness:
  "result_of (computeMarginForItem 2 pick_env ''PICK'' pick_state) = Some (Inr (Some pick_margin))
   \<and> getItemPrice 3 pick_env ''pick'' {} pick_state
       = getItemPrice 3 pick_env (toUpperCase ''pick'') {} pick_state
   \<and> itemPrice pick_state ''pick'' = itemPrice pick_state (toUpperCase ''pick'')
   \<and> m_item pick_margin = ''PICK''
   \<and> bazaarPrices pick_state ''PICK'' \<noteq> None
   \<and> (\<exists>t. db_margins (margin_state (computeMarginForItem 2 pick_env ''PICK'' pick_state)) =
            (db_margins pick_state)(''PICK'' \<mapsto>
              \<lparr>mr_costPerUnit = m_costPerUnit pick_margin, mr_sellPrice = m_sellPrice pick_margin,
               mr_profit = m_profit pick_margin, mr_marginPercent = m_marginPercent pick_margin,
               mr_updatedAt = t\<rparr>))"
proof -
  have h: "result_of (computeMarginForItem 2 pick_env ''PICK'' pick_state) = Some (Inr (Some pick_margin))"
    by code_simp
  show ?thesis
    using identifier_case [OF h, where k = 3 and x = "''pick''" and visited = "{}"
        and s = pick_state] h
    by blast
qed

section \<open>The craft price and its layers\<close>



section \<open>Cycles\<close>




end
